theory Spec2Isabelle
  imports Complex_Main "HOL-Library.Sublist"
begin

section \<open>Python strings\<close>

text \<open>
  A Python \<open>str\<close> is modelled as a \<open>string\<close>; one \<open>char\<close> stands for one code point.
  The operations below are the ones the two scripts apply to strings: \<open>a in b\<close>,
  \<open>startswith\<close>, \<open>strip\<close>, \<open>split\<close>, \<open>lower\<close> and \<open>replace\<close>. All of them compare
  characters with ASCII characters only.
\<close>

text \<open>\<open>p in s\<close> on strings: \<open>p\<close> occurs in \<open>s\<close> as a contiguous run.\<close>

fun str_in :: "string \<Rightarrow> string \<Rightarrow> bool" where
  "str_in p [] = (p = [])"
| "str_in p (c # cs) = (prefix p (c # cs) \<or> str_in p cs)"

text \<open>\<open>s.startswith(p)\<close>.\<close>

definition startswith :: "string \<Rightarrow> string \<Rightarrow> bool" where
  "startswith s p = prefix p s"

section \<open>howfairis\_variables.py\<close>

subsection \<open>The outside world of the compliance script\<close>

text \<open>
  A call that leaves the script either returns a value or raises; of an exception the
  script only ever reads \<open>str(error)\<close>, so an exception is its message.
\<close>

datatype 'a reply = Returns 'a | Raises string

text \<open>The object returned by \<open>checker.check_five_recommendations()\<close>.\<close>

record compliance =
  repository :: bool
  license :: bool
  registry :: bool
  citation :: bool
  checklist :: bool

text \<open>
  What the network answers during one call of \<open>parse_repo\<close>. The loop body runs once per
  attempt, and each run makes at most one call of each kind, so the answers are indexed
  by the number of the attempt (from 0):
  \<^item> \<open>checker\<close>: lines 27 to 29, \<open>Repo(url)\<close>, \<open>Checker(repo, is_quiet=True)\<close> and
    \<open>check_five_recommendations()\<close> on the URL;
  \<^item> \<open>rate_reset\<close>: \<open>api.rate_limit.get()["rate"]["reset"]\<close>;
  \<^item> \<open>clock\<close>: \<open>int(time.time())\<close>.
\<close>

record world =
  checker :: "string \<Rightarrow> nat \<Rightarrow> compliance reply"
  rate_reset :: "nat \<Rightarrow> int reply"
  clock :: "nat \<Rightarrow> int"

text \<open>An element of the list \<open>entry\<close>: the URL is a string, the five flags are booleans.\<close>

datatype cell = Str string | Bool bool

subsection \<open>The functions\<close>

text \<open>
  \<open>get_howfairis_compliance\<close> (lines 15 to 32), at attempt \<open>k\<close>: the five fields of the
  compliance object as a tuple, in the order of the \<open>return\<close> statement; an exception of
  the checker passes through.
\<close>

definition get_howfairis_compliance ::
  "world \<Rightarrow> nat \<Rightarrow> string \<Rightarrow> (bool \<times> bool \<times> bool \<times> bool \<times> bool) reply" where
  "get_howfairis_compliance w k url_repo =
     (case checker w url_repo k of
        Raises msg \<Rightarrow> Raises msg
      | Returns c \<Rightarrow>
          Returns (repository c, license c, registry c, citation c, checklist c))"

text \<open>\<open>is_supported_repo\<close> (lines 51 to 61).\<close>

definition supported_domains :: "string list" where
  "supported_domains = [''github.com'', ''gitlab.com'']"

definition is_supported_repo :: "string \<Rightarrow> bool" where
  "is_supported_repo url = list_ex (\<lambda>domain. str_in domain url) supported_domains"

text \<open>\<open>entry.extend(compliance)\<close> on \<open>entry = [repo_url]\<close>.\<close>

definition extend_entry :: "string \<Rightarrow> bool \<times> bool \<times> bool \<times> bool \<times> bool \<Rightarrow> cell list" where
  "extend_entry repo_url t =
     (case t of (a, b, c, d, e) \<Rightarrow> [Str repo_url, Bool a, Bool b, Bool c, Bool d, Bool e])"

definition default_branch_phrase :: string where
  "default_branch_phrase = ''Something went wrong asking the repo for its default branch''"

text \<open>
  What a call of \<open>parse_repo\<close> did: \<open>outcome\<close> is \<open>Inr\<close> of the returned value (\<open>None\<close> or
  the entry) or \<open>Inl\<close> of the message of an exception that left the function;
  \<open>attempts\<close> counts the calls of \<open>get_howfairis_compliance\<close>; \<open>sleeps\<close> lists the
  arguments of \<open>time.sleep\<close> in order, in seconds.
\<close>

record run =
  outcome :: "string + cell list option"
  attempts :: nat
  sleeps :: "int list"

text \<open>
  One pass through the body of the \<open>while\<close> loop (lines 80 to 101): either the function
  is left (\<open>Leave\<close>, with the outcome and the sleeps of this pass) or the loop goes
  round again after one sleep (\<open>Again\<close>).
  The tuple returned by \<open>get_howfairis_compliance\<close> is never \<open>None\<close>, so the test of
  line 83 always holds. The handler of line 90 catches every exception of the \<open>try\<close>
  block; the rate-limit query of line 100 and the \<open>time.sleep\<close> of line 101 stand outside
  any \<open>try\<close>, so what they raise leaves \<open>parse_repo\<close>: the query its own exception,
  \<open>time.sleep\<close> a ValueError on a negative argument.
\<close>

datatype pass = Leave "string + cell list option" "int list" | Again int

definition sleep_error :: string where
  "sleep_error = ''sleep length must be non-negative''"

definition parse_repo_pass :: "world \<Rightarrow> string \<Rightarrow> nat \<Rightarrow> pass" where
  "parse_repo_pass w repo_url k =
     (case get_howfairis_compliance w k repo_url of
        Returns t \<Rightarrow> Leave (Inr (Some (extend_entry repo_url t))) [1]
      | Raises error \<Rightarrow>
          if str_in default_branch_phrase error then Leave (Inr None) []
          else if str_in ''TimeoutError'' error then Again 5
          else (case rate_reset w k of
                  Raises e \<Rightarrow> Leave (Inl e) []
                | Returns reset \<Rightarrow>
                    let sleep_time = reset - clock w k
                    in if sleep_time + 2 < 0 then Leave (Inl sleep_error) []
                       else Again (sleep_time + 2)))"

text \<open>
  The \<open>while not request_successful\<close> loop (lines 79 to 101) from attempt \<open>k\<close> on, with
  the sleeps so far. \<open>request_successful\<close> is set only right before a \<open>return\<close>, so
  the test of the loop holds whenever it is made: the loop has no counter and no other
  exit than the ones of the pass, and it may run forever. The value \<open>None\<close> of the
  model is a call that never returns.
\<close>

partial_function (option) parse_repo_loop ::
  "world \<Rightarrow> string \<Rightarrow> nat \<Rightarrow> int list \<Rightarrow> run option" where
  "parse_repo_loop w repo_url k slept =
     (case parse_repo_pass w repo_url k of
        Leave r s \<Rightarrow> Some \<lparr>outcome = r, attempts = Suc k, sleeps = slept @ s\<rparr>
      | Again d \<Rightarrow> parse_repo_loop w repo_url (Suc k) (slept @ [d]))"

text \<open>\<open>parse_repo\<close> (lines 64 to 103).\<close>

definition parse_repo :: "world \<Rightarrow> string \<Rightarrow> run option" where
  "parse_repo w repo_url =
     (if \<not> is_supported_repo repo_url
      then Some \<lparr>outcome = Inr None, attempts = 0, sleeps = []\<rparr>
      else parse_repo_loop w repo_url 0 [])"

text \<open>
  The ways out of the loop, read off lines 83 to 101 and stated over the answers of the
  world at attempt \<open>k\<close>: the checker returns; or it raises a message with the
  default-branch phrase; or it raises a message with neither that phrase nor
  \<open>TimeoutError\<close> and then the rate-limit query raises, or \<open>reset - now + 2\<close> is
  negative and \<open>time.sleep\<close> raises.
\<close>

abbreviation leaves_at :: "world \<Rightarrow> string \<Rightarrow> nat \<Rightarrow> bool" where
  "leaves_at w u k \<equiv>
     (\<exists>c. checker w u k = Returns c) \<or>
     (\<exists>msg. checker w u k = Raises msg \<and>
        (sublist default_branch_phrase msg \<or>
         (\<not> sublist ''TimeoutError'' msg \<and>
            ((\<exists>e. rate_reset w k = Raises e) \<or>
             (\<exists>reset. rate_reset w k = Returns reset \<and> reset - clock w k + 2 < 0)))))"

section \<open>readme\_content.py\<close>

subsection \<open>More string operations\<close>

text \<open>\<open>s.strip(c)\<close> for a one-character argument: the character goes from both ends.\<close>

definition strip_char :: "char \<Rightarrow> string \<Rightarrow> string" where
  "strip_char c s = rev (dropWhile (\<lambda>x. x = c) (rev (dropWhile (\<lambda>x. x = c) s)))"

text \<open>
  \<open>s.split(c)\<close> for a one-character separator: every occurrence of the separator cuts,
  empty pieces are kept, and the empty string gives one empty piece.
\<close>

fun split_char :: "char \<Rightarrow> string \<Rightarrow> string list" where
  "split_char c [] = [[]]"
| "split_char c (x # xs) =
     (if x = c then [] # split_char c xs
      else (case split_char c xs of
              [] \<Rightarrow> [[x]]
            | p # ps \<Rightarrow> (x # p) # ps))"

text \<open>
  \<open>s.lower()\<close> on the ASCII letters. Other characters are left alone; no character
  outside ASCII lowers to a letter of \<open>readme\<close>, so the test of line 145 is not touched.
\<close>

definition lower_char :: "char \<Rightarrow> char" where
  "lower_char c =
     (case map_of (zip ''ABCDEFGHIJKLMNOPQRSTUVWXYZ'' ''abcdefghijklmnopqrstuvwxyz'') c of
        None \<Rightarrow> c
      | Some l \<Rightarrow> l)"

definition lower :: "string \<Rightarrow> string" where
  "lower s = map lower_char s"

text \<open>\<open>s.replace(a, b)\<close> for one-character \<open>a\<close> and \<open>b\<close>.\<close>

definition replace_char :: "char \<Rightarrow> char \<Rightarrow> string \<Rightarrow> string" where
  "replace_char a b s = map (\<lambda>c. if c = a then b else c) s"

text \<open>
  \<open>s.strip()\<close> without argument removes white space from both ends; these are the
  characters below 256 for which \<open>str.isspace\<close> holds.
\<close>

definition isspace :: "char \<Rightarrow> bool" where
  "isspace c = ((of_char c :: nat) \<in> set [9, 10, 11, 12, 13, 28, 29, 30, 31, 32, 133, 160])"

definition strip :: "string \<Rightarrow> string" where
  "strip s = rev (dropWhile isspace (rev (dropWhile isspace s)))"

subsection \<open>The outside world of the README script\<close>

text \<open>
  A header of an HTTP response as \<open>int(response.headers.get(name, 0))\<close> sees it: absent
  (the default 0 is taken), a number, or text on which \<open>int\<close> raises ValueError.
\<close>

datatype header = Absent | Number int | Malformed

text \<open>
  An HTTP response. \<open>ok\<close> is the truth value of the object, which is what
  \<open>if response:\<close> (line 59) tests. In requests it is false for a status from 400 to
  599, so it is false for every response that comes with an \<open>HTTPError\<close>.
\<close>

record response =
  ok :: bool
  status_code :: int
  ratelimit_remaining :: header
  ratelimit_reset :: header

text \<open>
  The exceptions, by the classes the \<open>except\<close> clauses tell apart: \<open>HTTPError\<close> with
  its response, \<open>Timeout\<close>, and every other exception with its message.
\<close>

datatype exn = HTTPError response | Timeout | OtherError string

text \<open>The answer of the rate-limit query: \<open>core.remaining\<close> and \<open>core.reset\<close>.\<close>

record quota =
  remaining :: int
  reset :: int

text \<open>
  An entry of a directory listing: \<open>content\<close> is \<open>None\<close> when the entry has no key
  \<open>content\<close>; \<open>download_url\<close> is \<open>None\<close> for a null link.
\<close>

record entry =
  name :: string
  content :: "string option"
  download_url :: "string option"

text \<open>
  The calls that leave the script:
  \<^item> \<open>get_rate_limit\<close>: \<open>api.rate_limit.get_rate_limit()\<close> (line 41);
  \<^item> \<open>now_check\<close>, \<open>now_handle\<close>: \<open>time.time()\<close> at lines 45 and 63;
  \<^item> \<open>get_content\<close>: \<open>api.repos.get_content(owner, repo, path="")\<close> (line 85);
  \<^item> \<open>b64decode_utf8\<close>: \<open>base64.b64decode(s).decode('utf-8')\<close> (line 106);
  \<^item> \<open>requests_get\<close>: \<open>requests.get(url, timeout=10)\<close>, \<open>raise_for_status()\<close> and
    \<open>.text\<close> (lines 109 to 111);
  \<^item> \<open>unquote\<close> and \<open>urlparse_path\<close>: \<open>urllib.parse.unquote\<close> and the \<open>path\<close> of
    \<open>urllib.parse.urlparse\<close> (line 131); \<open>urlparse\<close> may raise ValueError.
\<close>

record github =
  get_rate_limit :: "quota reply"
  now_check :: real
  now_handle :: real
  get_content :: "string \<Rightarrow> string \<Rightarrow> exn + entry list"
  b64decode_utf8 :: "string \<Rightarrow> exn + string"
  requests_get :: "string \<Rightarrow> exn + string"
  unquote :: "string \<Rightarrow> string"
  urlparse_path :: "string \<Rightarrow> exn + string"

subsection \<open>The functions\<close>

text \<open>\<open>is_github_url\<close> (lines 21 to 31).\<close>

definition is_github_url :: "string \<Rightarrow> bool" where
  "is_github_url url = startswith url ''https://github.com''"

text \<open>
  \<open>check_rate_limit\<close> (lines 33 to 50): the arguments of \<open>time.sleep\<close>, in seconds.
  Nothing leaves the function: the handler of line 48 catches every exception.
\<close>

definition check_rate_limit :: "quota reply \<Rightarrow> real \<Rightarrow> real list" where
  "check_rate_limit rate_limit now =
     (case rate_limit of
        Raises e \<Rightarrow> [20 * 60]
      | Returns q \<Rightarrow>
          if remaining q = 0
          then (let wait_time = max 0 (real_of_int (reset q) - now) in [wait_time + 1])
          else [])"

text \<open>\<open>int(response.headers.get(name, 0))\<close>.\<close>

definition header_int :: "header \<Rightarrow> exn + int" where
  "header_int h =
     (case h of
        Absent \<Rightarrow> Inr 0
      | Number n \<Rightarrow> Inr n
      | Malformed \<Rightarrow> Inl (OtherError ''invalid literal for int() with base 10''))"

text \<open>\<open>handle_rate_limit\<close> (lines 52 to 69): the sleeps, or the ValueError of \<open>int\<close>.\<close>

definition handle_rate_limit :: "response option \<Rightarrow> real \<Rightarrow> exn + real list" where
  "handle_rate_limit resp now =
     (if (case resp of None \<Rightarrow> False | Some r \<Rightarrow> ok r)
      then (case header_int (ratelimit_remaining (the resp)) of
              Inl e \<Rightarrow> Inl e
            | Inr remaining' \<Rightarrow>
                (case header_int (ratelimit_reset (the resp)) of
                   Inl e \<Rightarrow> Inl e
                 | Inr reset_time \<Rightarrow>
                     if remaining' = 0
                     then (let wait_time = max 0 (real_of_int reset_time - now)
                           in Inr [wait_time + 1])
                     else Inr []))
      else Inr [20 * 60])"

text \<open>
  \<open>get_content_from_github\<close> (lines 71 to 93): the sleeps, and the listing, \<open>None\<close>, or
  the exception that leaves the function. Only \<open>HTTPError\<close> and \<open>Timeout\<close> are caught.
\<close>

definition get_content_from_github ::
  "github \<Rightarrow> string \<Rightarrow> string \<Rightarrow> real list \<times> (exn + entry list option)" where
  "get_content_from_github api owner repo =
     (let slept = check_rate_limit (get_rate_limit api) (now_check api)
      in case get_content api owner repo of
           Inr contents \<Rightarrow> (slept, Inr (Some contents))
         | Inl (HTTPError r) \<Rightarrow>
             if status_code r = 403
             then (case handle_rate_limit (Some r) (now_handle api) of
                     Inl e \<Rightarrow> (slept, Inl e)
                   | Inr s \<Rightarrow> (slept @ s, Inr None))
             else (slept, Inr None)
         | Inl Timeout \<Rightarrow> (slept, Inr None)
         | Inl (OtherError m) \<Rightarrow> (slept, Inl (OtherError m)))"

text \<open>
  \<open>download_readme_content\<close> (lines 95 to 114). Only \<open>Timeout\<close> is caught; an
  \<open>HTTPError\<close> of \<open>raise_for_status\<close> and an error of the decoding leave the function.
\<close>

definition download_readme_content :: "github \<Rightarrow> entry \<Rightarrow> exn + string option" where
  "download_readme_content api c =
     (case content c of
        Some body \<Rightarrow>
          (case b64decode_utf8 api body of Inl e \<Rightarrow> Inl e | Inr text \<Rightarrow> Inr (Some text))
      | None \<Rightarrow>
          (case download_url c of
             None \<Rightarrow> Inr None
           | Some link \<Rightarrow>
               if link = [] then Inr None
               else (case requests_get api link of
                       Inr text \<Rightarrow> Inr (Some text)
                     | Inl Timeout \<Rightarrow> Inr None
                     | Inl e \<Rightarrow> Inl e)))"

text \<open>
  Lines 127 to 137 of \<open>get_readme_content\<close>: the owner and the repository name of a
  URL, or \<open>None\<close> when the URL is refused. The argument is a string here, so the
  \<open>isinstance\<close> test of line 127 holds.
\<close>

definition repo_address :: "github \<Rightarrow> string \<Rightarrow> exn + (string \<times> string) option" where
  "repo_address api github_url =
     (if \<not> is_github_url github_url then Inr None
      else (case urlparse_path api (unquote api github_url) of
              Inl e \<Rightarrow> Inl e
            | Inr path \<Rightarrow>
                let path_parts = split_char (CHR ''/'') (strip_char (CHR ''/'') path)
                in if length path_parts < 2 then Inr None
                   else Inr (Some (path_parts ! 0, path_parts ! 1))))"

text \<open>Lines 149 and 150: the two replacements and the markers.\<close>

definition sanitize :: "string \<Rightarrow> string" where
  "sanitize readme_content = replace_char (CHR '';'') (CHR '' '') (replace_char (CHR '','') (CHR '' '') readme_content)"

definition wrap_readme :: "string \<Rightarrow> string" where
  "wrap_readme readme_content =
     ''README_start'' @ [CHR 0x0A] @ readme_content @ [CHR 0x0A] @ ''README_end''"

text \<open>
  The \<open>for content in contents\<close> loop (lines 144 to 152): the first entry whose lowered
  name starts with \<open>readme\<close> and whose text is not empty decides.
\<close>

fun scan_contents :: "github \<Rightarrow> entry list \<Rightarrow> exn + string option" where
  "scan_contents api [] = Inr None"
| "scan_contents api (c # cs) =
     (if startswith (lower (name c)) ''readme''
      then (case download_readme_content api c of
              Inl e \<Rightarrow> Inl e
            | Inr None \<Rightarrow> scan_contents api cs
            | Inr (Some readme_content) \<Rightarrow>
                if readme_content \<noteq> []
                then Inr (Some (wrap_readme (sanitize readme_content)))
                else scan_contents api cs)
      else scan_contents api cs)"

text \<open>\<open>get_readme_content\<close> (lines 116 to 152): the sleeps and the result.\<close>

definition get_readme_content :: "string \<Rightarrow> github \<Rightarrow> real list \<times> (exn + string option)" where
  "get_readme_content github_url api =
     (case repo_address api github_url of
        Inl e \<Rightarrow> ([], Inl e)
      | Inr None \<Rightarrow> ([], Inr None)
      | Inr (Some (owner, repo)) \<Rightarrow>
          (case get_content_from_github api owner repo of
             (slept, Inl e) \<Rightarrow> (slept, Inl e)
           | (slept, Inr None) \<Rightarrow> (slept, Inr None)
           | (slept, Inr (Some contents)) \<Rightarrow> (slept, scan_contents api contents)))"

text \<open>
  The row loop of \<open>process_csv_file\<close> (lines 172 to 189) over the \<open>html_url\<close> cells of
  the input, \<open>None\<close> for a missing cell; the result is the \<open>readme\<close> column. Reading in
  chunks of 100 does not change the order of the rows. The loop has no \<open>try\<close>: an
  exception of \<open>get_readme_content\<close> ends the run.
\<close>

fun process_rows :: "github \<Rightarrow> string option list \<Rightarrow> exn + string option list" where
  "process_rows api [] = Inr []"
| "process_rows api (cell # rows) =
     (let html_url = strip (case cell of None \<Rightarrow> [] | Some s \<Rightarrow> s)
      in if is_github_url html_url
         then (case snd (get_readme_content html_url api) of
                 Inl e \<Rightarrow> Inl e
               | Inr readme_content \<Rightarrow>
                   (case process_rows api rows of
                      Inl e \<Rightarrow> Inl e
                    | Inr column \<Rightarrow>
                        Inr ((if readme_content \<noteq> None \<and> readme_content \<noteq> Some []
                              then readme_content else None) # column)))
         else (case process_rows api rows of
                 Inl e \<Rightarrow> Inl e
               | Inr column \<Rightarrow> Inr (None # column)))"

section \<open>Concrete inputs\<close>

subsection \<open>For the compliance script\<close>

definition url_ab :: string where
  "url_ab = ''https://github.com/a/b''"

definition sample_compliance :: compliance where
  "sample_compliance = \<lparr>repository = True, license = True, registry = False, citation = True,
     checklist = False\<rparr>"

definition world_default_branch :: world where
  "world_default_branch =
     \<lparr>checker = (\<lambda>url k. Raises ''Something went wrong asking the repo for its default branch.''),
      rate_reset = (\<lambda>k. Returns 1000), clock = (\<lambda>k. 900)\<rparr>"

definition world_timeouts :: world where
  "world_timeouts =
     \<lparr>checker = (\<lambda>url k. Raises ''TimeoutError''),
      rate_reset = (\<lambda>k. Returns 1000), clock = (\<lambda>k. 900)\<rparr>"

definition world_two_timeouts :: world where
  "world_two_timeouts =
     \<lparr>checker = (\<lambda>url k. if k < 2 then Raises ''TimeoutError'' else Returns sample_compliance),
      rate_reset = (\<lambda>k. Returns 1000), clock = (\<lambda>k. 900)\<rparr>"

definition world_query_fails :: world where
  "world_query_fails =
     \<lparr>checker = (\<lambda>url k. Raises ''403 Client Error: rate limit exceeded''),
      rate_reset = (\<lambda>k. Raises ''Connection refused''), clock = (\<lambda>k. 900)\<rparr>"

text \<open>
  A timeout reported without the word \<open>TimeoutError\<close>, a message with both phrases,
  and \<open>n\<close> timeouts before a success.
\<close>

definition world_read_timeout :: world where
  "world_read_timeout =
     \<lparr>checker = (\<lambda>url k. if k = 0 then Raises ''Read timed out. (read timeout=10)''
                         else Returns sample_compliance),
      rate_reset = (\<lambda>k. Returns 5000), clock = (\<lambda>k. 1400)\<rparr>"

definition world_both_phrases :: world where
  "world_both_phrases =
     \<lparr>checker = (\<lambda>url k. if k = 0
          then Raises ''TimeoutError: Something went wrong asking the repo for its default branch''
          else Returns sample_compliance),
      rate_reset = (\<lambda>k. Returns 5000), clock = (\<lambda>k. 1400)\<rparr>"

definition world_late_success :: "nat \<Rightarrow> world" where
  "world_late_success n =
     \<lparr>checker = (\<lambda>url k. if k < n then Raises ''TimeoutError'' else Returns sample_compliance),
      rate_reset = (\<lambda>k. Returns 5000), clock = (\<lambda>k. 1400)\<rparr>"

subsection \<open>For the README script\<close>

text \<open>
  The path \<open>urlparse\<close> gives for \<open>https://github.com\<close> (18 characters) followed by a
  path that has no \<open>?\<close>, \<open>#\<close> or \<open>;\<close> in it: the rest of the URL.
\<close>

definition plain_path :: "string \<Rightarrow> exn + string" where
  "plain_path u = Inr (drop 18 u)"

text \<open>
  A repository whose listing is one entry \<open>README.md\<close> with inline content \<open>YSxi\<close>,
  the base64 encoding of \<open>a,b\<close>. The URLs used have no percent sign, so \<open>unquote\<close>
  returns them as they are.
\<close>

definition readme_inline :: entry where
  "readme_inline = \<lparr>name = ''README.md'', content = Some ''YSxi'', download_url = None\<rparr>"

definition api_inline :: github where
  "api_inline =
     \<lparr>get_rate_limit = Returns \<lparr>remaining = 4999, reset = 2000\<rparr>,
      now_check = 1500, now_handle = 1500,
      get_content = (\<lambda>owner repo. Inr [readme_inline]),
      b64decode_utf8 =
        (\<lambda>s. if s = ''YSxi'' then Inr ''a,b'' else Inl (OtherError ''Incorrect padding'')),
      requests_get = (\<lambda>link. Inl Timeout),
      unquote = (\<lambda>s. s),
      urlparse_path = plain_path\<rparr>"

text \<open>
  A repository whose listing is one entry \<open>readme.md\<close> without inline content, and
  whose download link answers 404, so that \<open>raise_for_status\<close> raises \<open>HTTPError\<close>.
\<close>

definition not_found :: response where
  "not_found = \<lparr>ok = False, status_code = 404, ratelimit_remaining = Absent,
     ratelimit_reset = Absent\<rparr>"

definition readme_link :: entry where
  "readme_link = \<lparr>name = ''readme.md'', content = None,
     download_url = Some ''https://raw.githubusercontent.com/a/b/main/readme.md''\<rparr>"

definition api_download_404 :: github where
  "api_download_404 =
     \<lparr>get_rate_limit = Returns \<lparr>remaining = 4999, reset = 2000\<rparr>,
      now_check = 1500, now_handle = 1500,
      get_content = (\<lambda>owner repo. Inr [readme_link]),
      b64decode_utf8 = (\<lambda>s. Inl (OtherError ''Incorrect padding'')),
      requests_get = (\<lambda>link. Inl (HTTPError not_found)),
      unquote = (\<lambda>s. s),
      urlparse_path = plain_path\<rparr>"


text \<open>An exhausted quota that resets at second 2000, as a query answer and as headers.\<close>

definition exhausted :: quota where
  "exhausted = \<lparr>remaining = 0, reset = 2000\<rparr>"

definition limited :: response where
  "limited = \<lparr>ok = True, status_code = 200, ratelimit_remaining = Number 0,
     ratelimit_reset = Number 2000\<rparr>"

text \<open>
  What line 88 passes to \<open>handle_rate_limit\<close>: the response of an \<open>HTTPError\<close> with
  status 403. In requests the truth value of a response is its \<open>ok\<close>, which is false
  for a status from 400 to 599. The headers say 57 requests left, or none, and a reset
  at second 5000.
\<close>

definition forbidden :: response where
  "forbidden = \<lparr>ok = False, status_code = 403, ratelimit_remaining = Number 57,
     ratelimit_reset = Number 5000\<rparr>"

definition forbidden_exhausted :: response where
  "forbidden_exhausted = \<lparr>ok = False, status_code = 403, ratelimit_remaining = Number 0,
     ratelimit_reset = Number 5000\<rparr>"

definition api_forbidden :: github where
  "api_forbidden =
     \<lparr>get_rate_limit = Returns \<lparr>remaining = 57, reset = 5000\<rparr>,
      now_check = 1500, now_handle = 1500,
      get_content = (\<lambda>owner repo. Inl (HTTPError forbidden)),
      b64decode_utf8 = (\<lambda>s. Inl (OtherError ''Incorrect padding'')),
      requests_get = (\<lambda>link. Inl Timeout),
      unquote = (\<lambda>s. s),
      urlparse_path = plain_path\<rparr>"

section \<open>Properties of the compliance script\<close>

subsection \<open>Strings\<close>

lemma str_in_sublist: "str_in p s = sublist p s"
  by (induction s) (simp_all add: sublist_Cons_right)

lemma supported_url_ab: "is_supported_repo url_ab"
  by (simp add: is_supported_repo_def supported_domains_def url_ab_def)

subsection \<open>The retry loop\<close>

text \<open>
  \<open>n\<close> passes that go round again, followed by a pass that leaves: the loop returns
  after \<open>n + 1\<close> more attempts, and has slept once per pass.
\<close>

lemma loop_run:
  "(\<And>j. j < n \<Longrightarrow> parse_repo_pass w u (k + j) = Again (d j)) \<Longrightarrow>
   parse_repo_pass w u (k + n) = Leave r s \<Longrightarrow>
   parse_repo_loop w u k sl =
     Some \<lparr>outcome = r, attempts = Suc (k + n), sleeps = sl @ map d [0..<n] @ s\<rparr>"
proof (induction n arbitrary: k sl d)
  case 0
  then show ?case by (simp add: parse_repo_loop.simps [of w u k])
next
  case (Suc n)
  have first: "parse_repo_pass w u k = Again (d 0)"
    using Suc.prems(1) [of 0] by simp
  have rest: "parse_repo_loop w u (Suc k) (sl @ [d 0]) =
      Some \<lparr>outcome = r, attempts = Suc (Suc k + n),
        sleeps = (sl @ [d 0]) @ map (\<lambda>j. d (Suc j)) [0..<n] @ s\<rparr>"
  proof (rule Suc.IH)
    fix j assume "j < n"
    then show "parse_repo_pass w u (Suc k + j) = Again (d (Suc j))"
      using Suc.prems(1) [of "Suc j"] by simp
  next
    show "parse_repo_pass w u (Suc k + n) = Leave r s"
      using Suc.prems(2) by simp
  qed
  have shift: "map d [0..<Suc n] = d 0 # map (\<lambda>j. d (Suc j)) [0..<n]"
    by (simp add: upt_conv_Cons map_Suc_upt [symmetric] del: upt_Suc)
  show ?case
    by (simp only: parse_repo_loop.simps [of w u k] first pass.case rest shift)
       simp
qed

text \<open>A loop that returns was left by some pass, and that pass was the last attempt.\<close>

lemma loop_some_leave:
  assumes "parse_repo_loop w u k sl = Some y"
  shows "\<exists>j s. k \<le> j \<and> attempts y = Suc j \<and> parse_repo_pass w u j = Leave (outcome y) s"
  using assms
proof (induction w u k sl y rule: parse_repo_loop.raw_induct [rotated 1, consumes 1, case_names step])
  case (step loop w u k sl y)
  show ?case
  proof (cases "parse_repo_pass w u k")
    case (Leave r s)
    with step.hyps have "y = \<lparr>outcome = r, attempts = Suc k, sleeps = sl @ s\<rparr>" by simp
    with Leave show ?thesis by auto
  next
    case (Again d)
    with step.hyps have "loop w u (Suc k) (sl @ [d]) = Some y" by simp
    from step.IH [OF this] obtain j s where
      "Suc k \<le> j" "attempts y = Suc j" "parse_repo_pass w u j = Leave (outcome y) s" by blast
    then show ?thesis by (intro exI [of _ j] exI [of _ s]) simp
  qed
qed

text \<open>If some pass leaves, there is a first one, and all passes before it go round again.\<close>

lemma first_leave:
  assumes "parse_repo_pass w u m = Leave r s"
  shows "\<exists>n r' s'. n \<le> m \<and> parse_repo_pass w u n = Leave r' s'
           \<and> (\<forall>j<n. \<exists>d. parse_repo_pass w u j = Again d)"
proof -
  define n where "n = (LEAST i. \<exists>r' s'. parse_repo_pass w u i = Leave r' s')"
  have ex: "\<exists>r' s'. parse_repo_pass w u m = Leave r' s'" using assms by blast
  have a: "\<exists>r' s'. parse_repo_pass w u n = Leave r' s'"
    unfolding n_def by (rule LeastI [where P = "\<lambda>i. \<exists>r' s'. parse_repo_pass w u i = Leave r' s'", OF ex])
  have b: "n \<le> m" unfolding n_def by (rule Least_le [where P = "\<lambda>i. \<exists>r' s'. parse_repo_pass w u i = Leave r' s'", OF ex])
  have c: "\<exists>d. parse_repo_pass w u j = Again d" if "j < n" for j
  proof (cases "parse_repo_pass w u j")
    case (Leave r' s')
    then have "n \<le> j" unfolding n_def
      by (intro Least_le [where P = "\<lambda>i. \<exists>r' s'. parse_repo_pass w u i = Leave r' s'"]) blast
    with that show ?thesis by simp
  next
    case (Again d) then show ?thesis by blast
  qed
  from a b c show ?thesis by blast
qed

text \<open>The three kinds of pass the claims speak about.\<close>

lemma timeout_pass:
  assumes "checker w u k = Raises msg" "sublist ''TimeoutError'' msg"
    "\<not> sublist default_branch_phrase msg"
  shows "parse_repo_pass w u k = Again 5"
  using assms by (simp add: parse_repo_pass_def get_howfairis_compliance_def str_in_sublist)

lemma success_pass:
  assumes "checker w u k = Returns c"
  shows "parse_repo_pass w u k =
    Leave (Inr (Some [Str u, Bool (repository c), Bool (license c), Bool (registry c),
      Bool (citation c), Bool (checklist c)])) [1]"
  using assms by (simp add: parse_repo_pass_def get_howfairis_compliance_def extend_entry_def)

lemma leave_entry:
  assumes "parse_repo_pass w u k = Leave (Inr (Some e)) s"
  shows "\<exists>c. checker w u k = Returns c \<and>
    e = [Str u, Bool (repository c), Bool (license c), Bool (registry c),
      Bool (citation c), Bool (checklist c)]"
  using assms
  by (auto simp: parse_repo_pass_def get_howfairis_compliance_def extend_entry_def Let_def
      split: reply.splits if_splits)

text \<open>A run with two timeouts and a success, step by step.\<close>

lemma two_timeouts_run:
  "parse_repo world_two_timeouts url_ab =
     Some \<lparr>outcome = Inr (Some [Str url_ab, Bool True, Bool True, Bool False, Bool True,
               Bool False]), attempts = 3, sleeps = [5, 5, 1]\<rparr>"
proof -
  have p0: "parse_repo_pass world_two_timeouts url_ab 0 = Again 5"
    by (simp add: parse_repo_pass_def get_howfairis_compliance_def world_two_timeouts_def
        default_branch_phrase_def)
  have p1: "parse_repo_pass world_two_timeouts url_ab (Suc 0) = Again 5"
    by (simp add: parse_repo_pass_def get_howfairis_compliance_def world_two_timeouts_def
        default_branch_phrase_def)
  have p2: "parse_repo_pass world_two_timeouts url_ab (Suc (Suc 0)) =
      Leave (Inr (Some [Str url_ab, Bool True, Bool True, Bool False, Bool True,
        Bool False])) [1]"
    by (simp add: parse_repo_pass_def get_howfairis_compliance_def world_two_timeouts_def
        sample_compliance_def extend_entry_def)
  have l2: "parse_repo_loop world_two_timeouts url_ab (Suc (Suc 0)) [5, 5] =
      Some \<lparr>outcome = Inr (Some [Str url_ab, Bool True, Bool True, Bool False, Bool True,
               Bool False]), attempts = 3, sleeps = [5, 5, 1]\<rparr>"
    by (simp add: parse_repo_loop.simps [of _ _ "Suc (Suc 0)"] p2)
  have l1: "parse_repo_loop world_two_timeouts url_ab (Suc 0) [5] =
      parse_repo_loop world_two_timeouts url_ab (Suc (Suc 0)) [5, 5]"
    by (simp add: parse_repo_loop.simps [of _ _ "Suc 0"] p1)
  have l0: "parse_repo_loop world_two_timeouts url_ab 0 [] =
      parse_repo_loop world_two_timeouts url_ab (Suc 0) [5]"
    by (simp add: parse_repo_loop.simps [of _ _ 0] p0)
  show ?thesis
    using supported_url_ab by (simp add: parse_repo_def l0 l1 l2)
qed

subsection \<open>The claims\<close>

text \<open>A pass leaves the loop exactly in the ways listed above.\<close>

lemma leave_iff_world:
  "(\<exists>r s. parse_repo_pass w u k = Leave r s) \<longleftrightarrow> leaves_at w u k"
  by (auto simp: parse_repo_pass_def get_howfairis_compliance_def str_in_sublist Let_def
      split: reply.splits)

lemma again_unless_leave:
  "\<not> leaves_at w u k \<Longrightarrow> \<exists>d. parse_repo_pass w u k = Again d"
  using leave_iff_world [of w u k] by (cases "parse_repo_pass w u k") auto

lemma returns_iff:
  "(\<exists>r. parse_repo_loop w u 0 [] = Some r) \<longleftrightarrow> (\<exists>k. leaves_at w u k)"
proof
  assume "\<exists>r. parse_repo_loop w u 0 [] = Some r"
  then obtain r where "parse_repo_loop w u 0 [] = Some r" ..
  from loop_some_leave [OF this] have "\<exists>k r s. parse_repo_pass w u k = Leave r s" by blast
  then show "\<exists>k. leaves_at w u k" using leave_iff_world [of w u] by blast
next
  assume "\<exists>k. leaves_at w u k"
  then obtain m where "leaves_at w u m" ..
  then obtain r s where "parse_repo_pass w u m = Leave r s"
    using leave_iff_world [of w u m] by blast
  from first_leave [OF this] obtain n r' s' where
    n: "parse_repo_pass w u n = Leave r' s'" "\<forall>j<n. \<exists>d. parse_repo_pass w u j = Again d"
    by blast
  from n(2) have "\<exists>d. \<forall>j. j < n \<longrightarrow> parse_repo_pass w u j = Again (d j)"
    by (intro choice) blast
  then obtain d where d: "\<And>j. j < n \<Longrightarrow> parse_repo_pass w u (0 + j) = Again (d j)"
    by auto
  have last: "parse_repo_pass w u (0 + n) = Leave r' s'" using n(1) by simp
  from loop_run [OF d last, where sl = "[]"] show "\<exists>r. parse_repo_loop w u 0 [] = Some r"
    by simp
qed

lemma first_exit_attempts:
  assumes "leaves_at w u k" and "\<forall>j<k. \<not> leaves_at w u j"
  shows "\<exists>r. parse_repo_loop w u 0 [] = Some r \<and> attempts r = Suc k"
proof -
  from assms(1) obtain r s where last: "parse_repo_pass w u (0 + k) = Leave r s"
    using leave_iff_world [of w u k] by auto
  from assms(2) have "\<forall>j. \<exists>d. j < k \<longrightarrow> parse_repo_pass w u j = Again d"
    using again_unless_leave [of w u] by blast
  then have "\<exists>d. \<forall>j. j < k \<longrightarrow> parse_repo_pass w u j = Again (d j)"
    by (rule choice)
  then obtain d where d: "\<And>j. j < k \<Longrightarrow> parse_repo_pass w u (0 + j) = Again (d j)"
    by auto
  from loop_run [OF d last, where sl = "[]"] show ?thesis by simp
qed

lemma late_success_attempts:
  "\<exists>r. parse_repo_loop (world_late_success n) u 0 [] = Some r \<and> attempts r = Suc n"
proof (rule first_exit_attempts)
  show "leaves_at (world_late_success n) u n"
    by (simp add: world_late_success_def)
  show "\<forall>j<n. \<not> leaves_at (world_late_success n) u j"
    by (simp add: world_late_success_def default_branch_phrase_def str_in_sublist [symmetric])
qed

text \<open>
  Claim C2, as amended. The loop of \<open>parse_repo\<close> has no attempt cap. On an unsupported
  URL the call returns \<open>None\<close> at once, with no attempt. On a supported URL it returns (a
  value or an exception) exactly when some attempt leaves the loop: it succeeds, or
  fails with the default-branch message, or fails with a message that has neither that
  phrase nor \<open>TimeoutError\<close> while the rate-limit query raises or gives a negative
  sleep; every other attempt is followed by another one. When attempt \<open>k\<close> (from 0) is
  the first that leaves, the call returns after exactly \<open>k + 1\<close> attempts; and for
  every \<open>n\<close> some answers of the network make the call return after more than \<open>n\<close>
  attempts.
\<close>

theorem parse_repo_returns_iff:
  "(\<not> is_supported_repo u \<longrightarrow>
      parse_repo w u = Some \<lparr>outcome = Inr None, attempts = 0, sleeps = []\<rparr>) \<and>
   (is_supported_repo u \<longrightarrow>
      ((\<exists>r. parse_repo w u = Some r) \<longleftrightarrow> (\<exists>k. leaves_at w u k)) \<and>
      (\<forall>k. leaves_at w u k \<and> (\<forall>j<k. \<not> leaves_at w u j) \<longrightarrow>
         (\<exists>r. parse_repo w u = Some r \<and> attempts r = Suc k)) \<and>
      (\<forall>n. \<exists>w' r. parse_repo w' u = Some r \<and> n < attempts r))"
proof (cases "is_supported_repo u")
  case False
  then show ?thesis by (simp add: parse_repo_def)
next
  case True
  then have eq: "parse_repo w' u = parse_repo_loop w' u 0 []" for w'
    by (simp add: parse_repo_def)
  have a: "(\<exists>r. parse_repo w u = Some r) \<longleftrightarrow> (\<exists>k. leaves_at w u k)"
    unfolding eq by (rule returns_iff)
  have b: "\<exists>r. parse_repo w u = Some r \<and> attempts r = Suc k"
    if "leaves_at w u k \<and> (\<forall>j<k. \<not> leaves_at w u j)" for k
    unfolding eq using that first_exit_attempts [of w u k] by blast
  have c: "\<exists>w' r. parse_repo w' u = Some r \<and> n < attempts r" for n
  proof -
    from late_success_attempts [of n u] obtain r where
      "parse_repo_loop (world_late_success n) u 0 [] = Some r" "attempts r = Suc n" by blast
    then have "parse_repo (world_late_success n) u = Some r \<and> n < attempts r"
      by (simp add: eq)
    then show ?thesis by blast
  qed
  from True a b c show ?thesis by blast
qed

theorem parse_repo_returns_iff_witness:
  "\<exists>r. parse_repo world_two_timeouts url_ab = Some r \<and> attempts r = 3"
proof -
  have a: "leaves_at world_two_timeouts url_ab 2"
    by (simp add: world_two_timeouts_def)
  have b: "\<forall>j<2. \<not> leaves_at world_two_timeouts url_ab j"
    by (simp add: world_two_timeouts_def default_branch_phrase_def str_in_sublist [symmetric])
  from parse_repo_returns_iff [of url_ab world_two_timeouts] supported_url_ab a b
  show ?thesis by (auto simp: numeral_3_eq_3 numeral_2_eq_2)
qed

text \<open>
  Claim C2 as stated fails: when every attempt raises a timeout error, the call on a
  supported URL never returns, so no cap bounds the attempts.
\<close>

theorem endless_timeouts_never_return: "parse_repo world_timeouts url_ab = None"
proof (cases "parse_repo world_timeouts url_ab")
  case None then show ?thesis .
next
  case (Some y)
  then have "parse_repo_loop world_timeouts url_ab 0 [] = Some y"
    using supported_url_ab by (simp add: parse_repo_def)
  from loop_some_leave [OF this] obtain j s where
    "parse_repo_pass world_timeouts url_ab j = Leave (outcome y) s" by blast
  then show ?thesis
    by (simp add: parse_repo_pass_def get_howfairis_compliance_def world_timeouts_def
        default_branch_phrase_def)
qed

text \<open>
  Claim C3. When the first attempt on a supported URL raises an error whose message
  contains the phrase about the default branch, \<open>parse_repo\<close> returns \<open>None\<close> (the row is
  skipped) after that one attempt, without sleeping and without another attempt.
\<close>

theorem default_branch_error_skips_at_once:
  assumes "is_supported_repo repo_url"
    and "checker w repo_url 0 = Raises msg"
    and "sublist default_branch_phrase msg"
  shows "parse_repo w repo_url = Some \<lparr>outcome = Inr None, attempts = 1, sleeps = []\<rparr>"
  using assms
  by (simp add: parse_repo_def parse_repo_loop.simps [of w repo_url 0]
      parse_repo_pass_def get_howfairis_compliance_def str_in_sublist)

theorem default_branch_error_skips_at_once_witness:
  "parse_repo world_default_branch url_ab =
     Some \<lparr>outcome = Inr None, attempts = 1, sleeps = []\<rparr>"
proof -
  have a: "checker world_default_branch url_ab 0 =
      Raises ''Something went wrong asking the repo for its default branch.''"
    by (simp add: world_default_branch_def)
  have b: "sublist default_branch_phrase
      ''Something went wrong asking the repo for its default branch.''"
    by (simp add: default_branch_phrase_def str_in_sublist [symmetric])
  show ?thesis
    by (rule default_branch_error_skips_at_once [OF supported_url_ab a b])
qed

text \<open>
  Claim C5 holds on the README path only. On the compliance path a rate-limit query
  that raises is not followed by any cooldown: the exception leaves \<open>parse_repo\<close> after
  the first attempt, with no sleep at all.
\<close>

theorem failed_rate_query_leaves_parse_repo: "parse_repo world_query_fails url_ab =
   Some \<lparr>outcome = Inl ''Connection refused'', attempts = 1, sleeps = []\<rparr>"
  using supported_url_ab
  by (simp add: parse_repo_def parse_repo_loop.simps [of _ _ 0] parse_repo_pass_def
      get_howfairis_compliance_def world_query_fails_def default_branch_phrase_def)

text \<open>
  Claim C7, as amended. On a supported URL, when the first \<open>n\<close> attempts raise errors
  whose message contains \<open>TimeoutError\<close> and not the default-branch phrase, and attempt
  \<open>n + 1\<close> succeeds, \<open>parse_repo\<close> returns the entry of that attempt after exactly
  \<open>n + 1\<close> attempts; it has slept 5 seconds after each of the errors, and 1 second
  after the success.
\<close>

theorem timeouts_then_success:
  assumes "is_supported_repo u"
    and "\<forall>j<n. \<exists>msg. checker w u j = Raises msg \<and> sublist ''TimeoutError'' msg
            \<and> \<not> sublist default_branch_phrase msg"
    and "checker w u n = Returns c"
  shows "parse_repo w u =
    Some \<lparr>outcome = Inr (Some [Str u, Bool (repository c), Bool (license c),
                Bool (registry c), Bool (citation c), Bool (checklist c)]),
          attempts = Suc n, sleeps = replicate n 5 @ [1]\<rparr>"
proof -
  have again: "parse_repo_pass w u (0 + j) = Again ((\<lambda>_. 5) j)" if "j < n" for j
    using assms(2) that timeout_pass by auto
  have last: "parse_repo_pass w u (0 + n) =
    Leave (Inr (Some [Str u, Bool (repository c), Bool (license c), Bool (registry c),
      Bool (citation c), Bool (checklist c)])) [1]"
    using success_pass [OF assms(3)] by simp
  have "map (\<lambda>_. 5::int) [0..<n] = replicate n 5"
    by (simp add: map_replicate_const)
  with loop_run [OF again last, where sl = "[]"] assms(1) show ?thesis
    by (simp add: parse_repo_def)
qed

theorem timeouts_then_success_witness:
  "parse_repo world_two_timeouts url_ab =
    Some \<lparr>outcome = Inr (Some [Str url_ab, Bool True, Bool True, Bool False, Bool True, Bool False]),
          attempts = 3, sleeps = [5, 5, 1]\<rparr>"
proof -
  have a: "\<forall>j<2. \<exists>msg. checker world_two_timeouts url_ab j = Raises msg \<and>
      sublist ''TimeoutError'' msg \<and> \<not> sublist default_branch_phrase msg"
    by (simp add: world_two_timeouts_def default_branch_phrase_def str_in_sublist [symmetric])
  have b: "checker world_two_timeouts url_ab 2 = Returns sample_compliance"
    by (simp add: world_two_timeouts_def)
  show ?thesis
    using timeouts_then_success [OF supported_url_ab a b]
    by (simp add: sample_compliance_def numeral_2_eq_2 numeral_3_eq_3)
qed

text \<open>
  Claim C7 as stated fails. Line 97 recognises a timeout by the word \<open>TimeoutError\<close>
  in the message, and line 93 comes first. After a timeout reported as
  \<open>Read timed out. (read timeout=10)\<close> the script waits for the quota reset, 3602
  seconds here, not a few seconds; after a message with both phrases the row is skipped
  at the first attempt, although the next attempt would succeed.
\<close>

theorem timeout_without_literal_waits_for_quota:
  "parse_repo world_read_timeout url_ab =
     Some \<lparr>outcome = Inr (Some [Str url_ab, Bool True, Bool True, Bool False, Bool True,
               Bool False]), attempts = 2, sleeps = [3602, 1]\<rparr> \<and>
   parse_repo world_both_phrases url_ab =
     Some \<lparr>outcome = Inr None, attempts = 1, sleeps = []\<rparr>"
proof -
  have p0: "parse_repo_pass world_read_timeout url_ab 0 = Again 3602"
    by (simp add: parse_repo_pass_def get_howfairis_compliance_def world_read_timeout_def
        default_branch_phrase_def)
  have p1: "parse_repo_pass world_read_timeout url_ab (Suc 0) =
      Leave (Inr (Some [Str url_ab, Bool True, Bool True, Bool False, Bool True,
        Bool False])) [1]"
    by (simp add: parse_repo_pass_def get_howfairis_compliance_def world_read_timeout_def
        sample_compliance_def extend_entry_def)
  have q0: "parse_repo_pass world_both_phrases url_ab 0 = Leave (Inr None) []"
    by (simp add: parse_repo_pass_def get_howfairis_compliance_def world_both_phrases_def
        default_branch_phrase_def)
  have l1: "parse_repo_loop world_read_timeout url_ab (Suc 0) [3602] =
      Some \<lparr>outcome = Inr (Some [Str url_ab, Bool True, Bool True, Bool False, Bool True,
               Bool False]), attempts = 2, sleeps = [3602, 1]\<rparr>"
    by (simp add: parse_repo_loop.simps [of _ _ "Suc 0"] p1)
  have l0: "parse_repo_loop world_read_timeout url_ab 0 [] =
      parse_repo_loop world_read_timeout url_ab (Suc 0) [3602]"
    by (simp add: parse_repo_loop.simps [of _ _ 0] p0)
  have m0: "parse_repo_loop world_both_phrases url_ab 0 [] =
      Some \<lparr>outcome = Inr None, attempts = 1, sleeps = []\<rparr>"
    by (simp add: parse_repo_loop.simps [of _ _ 0] q0)
  show ?thesis
    using supported_url_ab by (simp add: parse_repo_def l0 l1 m0)
qed

text \<open>
  Claim C10. A result of \<open>parse_repo\<close> other than \<open>None\<close> is a list of six elements: the
  URL the function was called with, then the five flags of the last attempt's
  compliance object in the order repository, license, registry, citation, checklist.
\<close>

theorem parse_repo_entry_carries_url:
  assumes "parse_repo w u = Some r" and "outcome r = Inr (Some e)"
  shows "\<exists>c. checker w u (attempts r - 1) = Returns c \<and>
    e = [Str u, Bool (repository c), Bool (license c), Bool (registry c),
      Bool (citation c), Bool (checklist c)] \<and> length e = 6 \<and> hd e = Str u"
proof -
  have loop: "parse_repo_loop w u 0 [] = Some r"
    using assms by (auto simp: parse_repo_def split: if_splits)
  from loop_some_leave [OF loop] obtain j s where
    j: "attempts r = Suc j" "parse_repo_pass w u j = Leave (outcome r) s" by blast
  from leave_entry [of w u j e s] j assms(2) show ?thesis by auto
qed

theorem parse_repo_entry_carries_url_witness:
  "\<exists>c. checker world_two_timeouts url_ab 2 = Returns c \<and>
     [Str url_ab, Bool True, Bool True, Bool False, Bool True, Bool False] =
       [Str url_ab, Bool (repository c), Bool (license c), Bool (registry c),
        Bool (citation c), Bool (checklist c)]"
proof -
  show ?thesis
    using parse_repo_entry_carries_url [OF two_timeouts_run] by simp
qed

section \<open>Properties of the README script\<close>

subsection \<open>Splitting a path\<close>



subsection \<open>The address of a repository\<close>






lemma address_url_ab: "repo_address api_inline url_ab = Inr (Some (''a'', ''b''))"
  by code_simp

text \<open>Two slashes in a row give an empty repository name, not the next segment.\<close>

lemma empty_segment_kept:
  "repo_address api_inline ''https://github.com/a//b'' = Inr (Some (''a'', []))"
  by code_simp




subsection \<open>Waiting for the quota\<close>

text \<open>
  Time is a real number here. With a quota answer, \<open>check_rate_limit\<close> does not sleep
  when the remaining quota is positive; when it is 0 it sleeps once, for
  \<open>max(0, reset - now) + 1\<close> seconds, which is positive and at least \<open>reset - now\<close> plus
  a margin of one second. The first branch of \<open>handle_rate_limit\<close> does the same from
  the two headers, for a response whose truth value holds.
\<close>

lemma quota_wait:
  "(0 < remaining q \<longrightarrow> check_rate_limit (Returns q) now = []) \<and>
   (remaining q = 0 \<longrightarrow>
      (\<exists>wait. check_rate_limit (Returns q) now = [wait] \<and> 0 < wait \<and>
         real_of_int (reset q) - now + 1 \<le> wait \<and>
         wait = max 0 (real_of_int (reset q) - now) + 1)) \<and>
   (ok r \<and> header_int (ratelimit_remaining r) = Inr left \<and>
      header_int (ratelimit_reset r) = Inr reset_time \<longrightarrow>
      (0 < left \<longrightarrow> handle_rate_limit (Some r) now = Inr []) \<and>
      (left = 0 \<longrightarrow>
         (\<exists>wait. handle_rate_limit (Some r) now = Inr [wait] \<and> 0 < wait \<and>
            real_of_int reset_time - now + 1 \<le> wait \<and>
            wait = max 0 (real_of_int reset_time - now) + 1)))"
  by (auto simp: check_rate_limit_def handle_rate_limit_def Let_def)

lemma quota_wait_example:
  "check_rate_limit (Returns exhausted) 1500 = [501] \<and>
   handle_rate_limit (Some limited) 1500 = Inr [501]"
proof -
  have a: "remaining exhausted = 0" "reset exhausted = 2000" by (simp_all add: exhausted_def)
  have b: "ok limited" "header_int (ratelimit_remaining limited) = Inr 0"
    "header_int (ratelimit_reset limited) = Inr 2000"
    by (simp_all add: limited_def header_int_def)
  show ?thesis
    using quota_wait [of exhausted 1500 limited 0 2000] a b by auto
qed

text \<open>
  Claim C4 fails on the code. The only call of \<open>handle_rate_limit\<close> (line 88) passes
  the response of a 403, whose truth value is false, so the test of line 59 fails and
  the header branch of lines 60 to 65 never runs: the script sleeps 20 minutes, the
  "default sleep time if no response headers are available" of line 67, whatever the
  headers say. With 57 requests left the wait is 1200 seconds, not zero; with none left
  and the reset 3500 seconds away it is 1200 seconds, less than \<open>reset - now + 1 = 3501\<close>.
\<close>

theorem forbidden_response_sleeps_flat:
  "handle_rate_limit (Some forbidden) 1500 = Inr [1200] \<and>
   handle_rate_limit (Some forbidden_exhausted) 1500 = Inr [1200] \<and>
   get_content_from_github api_forbidden ''a'' ''b'' = ([1200], Inr None)"
  by (simp add: handle_rate_limit_def forbidden_def forbidden_exhausted_def
      get_content_from_github_def api_forbidden_def check_rate_limit_def)

text \<open>The fallback of the README path when the query raises: one sleep of 20 minutes.\<close>

lemma check_rate_limit_fallback: "check_rate_limit (Raises e) now = [1200]"
  by (simp add: check_rate_limit_def)

subsection \<open>The text of the README\<close>

lemma sanitize_clean: "CHR '','' \<notin> set (sanitize t) \<and> CHR '';'' \<notin> set (sanitize t)"
  by (auto simp: sanitize_def replace_char_def)

lemma sanitize_map:
  "sanitize t = map (\<lambda>c. if c = CHR '','' \<or> c = CHR '';'' then CHR '' '' else c) t"
  by (simp add: sanitize_def replace_char_def)

lemma wrap_clean:
  "CHR '','' \<notin> set t \<Longrightarrow> CHR '';'' \<notin> set t \<Longrightarrow>
   CHR '','' \<notin> set (wrap_readme t) \<and> CHR '';'' \<notin> set (wrap_readme t)"
  by (simp add: wrap_readme_def)

lemma scan_clean:
  "scan_contents api cs = Inr (Some text) \<Longrightarrow>
   CHR '','' \<notin> set text \<and> CHR '';'' \<notin> set text"
proof (induction cs)
  case Nil
  then show ?case by simp
next
  case (Cons c cs)
  show ?case
  proof (cases "startswith (lower (name c)) ''readme''")
    case False
    with Cons show ?thesis by simp
  next
    case True
    show ?thesis
    proof (cases "download_readme_content api c")
      case (Inl e)
      with True Cons.prems show ?thesis by simp
    next
      case (Inr found)
      show ?thesis
      proof (cases found)
        case None
        with Inr True Cons show ?thesis by simp
      next
        case (Some t)
        show ?thesis
        proof (cases "t = []")
          case True
          with Some Inr \<open>startswith (lower (name c)) ''readme''\<close> Cons show ?thesis by simp
        next
          case False
          with Some Inr True Cons.prems have "text = wrap_readme (sanitize t)" by simp
          with sanitize_clean [of t] wrap_clean show ?thesis by blast
        qed
      qed
    qed
  qed
qed

lemma scan_skip:
  "\<forall>c\<in>set before. \<not> startswith (lower (name c)) ''readme'' \<Longrightarrow>
   scan_contents api (before @ rest) = scan_contents api rest"
  by (induction before) simp_all

lemma inline_run:
  "get_readme_content url_ab api_inline =
     ([], Inr (Some (''README_start'' @ [CHR 0x0A] @ ''a b'' @ [CHR 0x0A] @ ''README_end'')))"
  by code_simp

text \<open>
  Claim C8, as amended. When the entry whose lowered name is \<open>readme.md\<close> comes before
  any other entry whose lowered name starts with \<open>readme\<close>, and its inline content
  decodes to a text \<open>t\<close> that is not empty, \<open>get_readme_content\<close> returns
  \<open>README_start\<close>, a newline, \<open>t\<close> with every comma and every semicolon replaced by a
  space, a newline, \<open>README_end\<close>. The text is unchanged when it has neither character.
\<close>

theorem inline_readme_sanitized_and_wrapped:
  assumes "repo_address api url = Inr (Some (owner, repo))"
    and "get_content api owner repo = Inr (before @ e # after)"
    and "\<forall>c\<in>set before. \<not> startswith (lower (name c)) ''readme''"
    and "lower (name e) = ''readme.md''"
    and "content e = Some body"
    and "b64decode_utf8 api body = Inr t"
    and "t \<noteq> []"
  shows "snd (get_readme_content url api) =
      Inr (Some (''README_start'' @ [CHR 0x0A] @
        map (\<lambda>c. if c = CHR '','' \<or> c = CHR '';'' then CHR '' '' else c) t @
        [CHR 0x0A] @ ''README_end'')) \<and>
    (CHR '','' \<notin> set t \<and> CHR '';'' \<notin> set t \<longrightarrow>
      snd (get_readme_content url api) =
        Inr (Some (''README_start'' @ [CHR 0x0A] @ t @ [CHR 0x0A] @ ''README_end'')))"
proof -
  have "scan_contents api (before @ e # after) = scan_contents api (e # after)"
    using assms(3) by (rule scan_skip)
  also have "\<dots> = Inr (Some (wrap_readme (sanitize t)))"
    using assms(4-7) by (simp add: download_readme_content_def startswith_def)
  finally have "scan_contents api (before @ e # after) = Inr (Some (wrap_readme (sanitize t)))" .
  then have run: "snd (get_readme_content url api) =
      Inr (Some (''README_start'' @ [CHR 0x0A] @
        map (\<lambda>c. if c = CHR '','' \<or> c = CHR '';'' then CHR '' '' else c) t @
        [CHR 0x0A] @ ''README_end''))"
    using assms(1,2)
    by (simp add: get_readme_content_def get_content_from_github_def Let_def
        wrap_readme_def sanitize_map)
  have same: "map (\<lambda>c. if c = CHR '','' \<or> c = CHR '';'' then CHR '' '' else c) t = t"
    if "CHR '','' \<notin> set t \<and> CHR '';'' \<notin> set t"
    using that by (induction t) auto
  from run same show ?thesis by auto
qed

theorem inline_readme_sanitized_and_wrapped_witness:
  "snd (get_readme_content url_ab api_inline) =
     Inr (Some (''README_start'' @ [CHR 0x0A] @ ''a b'' @ [CHR 0x0A] @ ''README_end''))"
proof -
  have a: "get_content api_inline ''a'' ''b'' = Inr ([] @ readme_inline # [])"
    by (simp add: api_inline_def)
  have b: "\<forall>c\<in>set []. \<not> startswith (lower (name c)) ''readme''" by simp
  have c: "lower (name readme_inline) = ''readme.md''"
    by (simp add: readme_inline_def lower_def lower_char_def)
  have d: "content readme_inline = Some ''YSxi''" by (simp add: readme_inline_def)
  have e: "b64decode_utf8 api_inline ''YSxi'' = Inr ''a,b''" by (simp add: api_inline_def)
  have f: "''a,b'' \<noteq> []" by simp
  show ?thesis
    using inline_readme_sanitized_and_wrapped [OF address_url_ab a b c d e f] by simp
qed

text \<open>
  Claim C8 as stated fails: the only entry is \<open>README.md\<close>, its inline content decodes
  to \<open>a,b\<close>, and the returned text has \<open>a b\<close> between the markers, not \<open>a,b\<close>.
\<close>

theorem inline_readme_comma_replaced:
  "get_content api_inline ''a'' ''b'' = Inr [readme_inline] \<and>
   lower (name readme_inline) = ''readme.md'' \<and>
   content readme_inline = Some ''YSxi'' \<and>
   b64decode_utf8 api_inline ''YSxi'' = Inr ''a,b'' \<and>
   snd (get_readme_content url_ab api_inline) =
     Inr (Some (''README_start'' @ [CHR 0x0A] @ ''a b'' @ [CHR 0x0A] @ ''README_end'')) \<and>
   snd (get_readme_content url_ab api_inline) \<noteq>
     Inr (Some (''README_start'' @ [CHR 0x0A] @ ''a,b'' @ [CHR 0x0A] @ ''README_end''))"
proof -
  have listing: "get_content api_inline ''a'' ''b'' = Inr [readme_inline]"
    and decoded: "b64decode_utf8 api_inline ''YSxi'' = Inr ''a,b''"
    by (simp_all add: api_inline_def)
  have entry: "lower (name readme_inline) = ''readme.md''"
    "content readme_inline = Some ''YSxi''"
    by (simp_all add: readme_inline_def lower_def lower_char_def)
  have result: "snd (get_readme_content url_ab api_inline) =
      Inr (Some (''README_start'' @ [CHR 0x0A] @ ''a b'' @ [CHR 0x0A] @ ''README_end''))"
    by (simp add: inline_run)
  have differs: "snd (get_readme_content url_ab api_inline) \<noteq>
      Inr (Some (''README_start'' @ [CHR 0x0A] @ ''a,b'' @ [CHR 0x0A] @ ''README_end''))"
    by (simp add: inline_run)
  from listing decoded entry result differs show ?thesis by blast
qed

text \<open>
  Claim C9. A text returned by \<open>get_readme_content\<close> has no comma and no semicolon:
  both are replaced in the README before the markers, which have neither, are added.
\<close>

theorem readme_text_has_no_delimiters:
  assumes "snd (get_readme_content url api) = Inr (Some text)"
  shows "CHR '','' \<notin> set text \<and> CHR '';'' \<notin> set text"
proof -
  from assms obtain cs where "scan_contents api cs = Inr (Some text)"
    by (auto simp: get_readme_content_def split: sum.splits option.splits prod.splits)
  then show ?thesis by (rule scan_clean)
qed

theorem readme_text_has_no_delimiters_witness:
  "CHR '','' \<notin> set (''README_start'' @ [CHR 0x0A] @ ''a b'' @ [CHR 0x0A] @ ''README_end'') \<and>
   CHR '';'' \<notin> set (''README_start'' @ [CHR 0x0A] @ ''a b'' @ [CHR 0x0A] @ ''README_end'')"
proof -
  have "snd (get_readme_content url_ab api_inline) =
      Inr (Some (''README_start'' @ [CHR 0x0A] @ ''a b'' @ [CHR 0x0A] @ ''README_end''))"
    by (simp add: inline_run)
  then show ?thesis by (rule readme_text_has_no_delimiters)
qed

subsection \<open>The rows of the batch\<close>

text \<open>
  Claim C1 fails on the code. \<open>download_readme_content\<close> promises \<open>None\<close> "if the
  request was unsuccessful" but catches \<open>Timeout\<close> only: the \<open>HTTPError\<close> that
  \<open>raise_for_status\<close> raises on a 404 passes through \<open>get_readme_content\<close> and the row
  loop, neither of which has a \<open>try\<close>, and the run ends at the first row; the second row
  is never processed.
\<close>

theorem http_error_on_download_ends_run:
  "process_rows api_download_404 [Some url_ab, Some ''https://github.com/c/d''] =
     Inl (HTTPError not_found)"
  by code_simp

end
